theory Spec2Isabelle
  imports Complex_Main "HOL-Library.Word"
begin

section \<open>The Windows CPU check (pkg/collector/corechecks/system/cpu_windows.go)\<close>

text \<open>
  The check samples the cumulative idle, kernel and user times of the machine, turns the
  difference between two samples into percentages and hands them to a metric sender.
  The model follows the Go source function by function. Everything the source obtains
  from outside the file (the sender, the system call, the host's CPU information, the
  performance counter) is an input of the model: a record holding what each call gave.
\<close>

subsection \<open>Values of type float64\<close>

text \<open>
  A \<open>float64\<close> is a finite number, a negative zero, an infinity or a NaN. \<open>Fin 0\<close> is
  the positive zero and \<open>NZero\<close> the negative one. A finite value is carried as the
  rational number it denotes, and every operation rounds its exact result to the
  nearest binary64 number, ties to the even significand, as Go's arithmetic does: a
  result of magnitude \<open>2^1024\<close> after rounding is an infinity, and below \<open>2^-1022\<close>
  the spacing of the numbers stays \<open>2^-1074\<close>. A floating-point division by zero does
  not panic: it gives an infinity or a NaN, and these propagate through the arithmetic
  that follows.
\<close>

datatype f64 = Fin rat | NZero | PInf | NInf | NaN

text \<open>The number of binary digits of a positive integer (0 for the others).\<close>

function bit_length :: "int \<Rightarrow> int" where
  "bit_length n = (if n \<le> 0 then 0 else 1 + bit_length (n div 2))"
  by auto
termination
  by (relation "measure nat") auto

declare bit_length.simps [simp del]

definition pow2 :: "int \<Rightarrow> rat" where
  "pow2 k = (if 0 \<le> k then 2 ^ nat k else 1 / 2 ^ nat (- k))"

text \<open>For \<open>0 < x\<close>, the exponent \<open>e\<close> with \<open>2^e \<le> x < 2^(e+1)\<close>.\<close>

definition floor_log2 :: "rat \<Rightarrow> int" where
  "floor_log2 x =
     (if 1 \<le> x then bit_length \<lfloor>x\<rfloor> - 1
      else - bit_length (\<lceil>1 / x\<rceil> - 1))"

definition round_half_even :: "rat \<Rightarrow> int" where
  "round_half_even m =
     (let f = \<lfloor>m\<rfloor>; r = m - of_int f
      in if r < 1 / 2 then f else if 1 / 2 < r then f + 1 else if even f then f else f + 1)"

text \<open>
  Rounding to binary64. The significand has 53 bits, so a number in
  \<open>[2^e, 2^(e+1))\<close> is rounded to a multiple of \<open>2^(e-52)\<close>, with \<open>e\<close> not below
  \<open>-1022\<close>. An exact zero is the positive zero here; the operations below decide the
  sign of their exact zeros themselves.
\<close>

definition round64 :: "rat \<Rightarrow> f64" where
  "round64 x =
     (if x = 0 then Fin 0
      else
        let a = \<bar>x\<bar>;
            e = max (floor_log2 a) (- 1022);
            q = pow2 (e - 52);
            v = of_int (round_half_even (a / q)) * q
        in if (if e < 1023 then False else pow2 1024 \<le> v) then (if 0 < x then PInf else NInf)
           else if v = 0 then (if 0 < x then Fin 0 else NZero)
           else Fin (if 0 < x then v else - v))"


instantiation f64 :: "{plus, uminus, minus, times, inverse}"
begin

fun plus_f64 :: "f64 \<Rightarrow> f64 \<Rightarrow> f64" where
  "plus_f64 NaN y = NaN"
| "plus_f64 x NaN = NaN"
| "plus_f64 PInf NInf = NaN"
| "plus_f64 NInf PInf = NaN"
| "plus_f64 PInf y = PInf"
| "plus_f64 x PInf = PInf"
| "plus_f64 NInf y = NInf"
| "plus_f64 x NInf = NInf"
| "plus_f64 NZero NZero = NZero"
| "plus_f64 NZero (Fin b) = Fin b"
| "plus_f64 (Fin a) NZero = Fin a"
| "plus_f64 (Fin a) (Fin b) = round64 (a + b)"

fun uminus_f64 :: "f64 \<Rightarrow> f64" where
  "uminus_f64 NaN = NaN"
| "uminus_f64 PInf = NInf"
| "uminus_f64 NInf = PInf"
| "uminus_f64 NZero = Fin 0"
| "uminus_f64 (Fin a) = (if a = 0 then NZero else Fin (- a))"

definition minus_f64 :: "f64 \<Rightarrow> f64 \<Rightarrow> f64" where
  "minus_f64 x y = x + (- y)"

fun times_f64 :: "f64 \<Rightarrow> f64 \<Rightarrow> f64" where
  "times_f64 NaN y = NaN"
| "times_f64 x NaN = NaN"
| "times_f64 (Fin a) (Fin b) =
     (if a * b = 0 then (if (a < 0) \<noteq> (b < 0) then NZero else Fin 0)
      else round64 (a * b))"
| "times_f64 (Fin a) NZero = (if a < 0 then Fin 0 else NZero)"
| "times_f64 NZero (Fin b) = (if b < 0 then Fin 0 else NZero)"
| "times_f64 NZero NZero = Fin 0"
| "times_f64 (Fin a) PInf = (if a = 0 then NaN else if 0 < a then PInf else NInf)"
| "times_f64 (Fin a) NInf = (if a = 0 then NaN else if 0 < a then NInf else PInf)"
| "times_f64 PInf (Fin b) = (if b = 0 then NaN else if 0 < b then PInf else NInf)"
| "times_f64 NInf (Fin b) = (if b = 0 then NaN else if 0 < b then NInf else PInf)"
| "times_f64 NZero PInf = NaN"
| "times_f64 NZero NInf = NaN"
| "times_f64 PInf NZero = NaN"
| "times_f64 NInf NZero = NaN"
| "times_f64 PInf PInf = PInf"
| "times_f64 PInf NInf = NInf"
| "times_f64 NInf PInf = NInf"
| "times_f64 NInf NInf = PInf"

fun divide_f64 :: "f64 \<Rightarrow> f64 \<Rightarrow> f64" where
  "divide_f64 NaN y = NaN"
| "divide_f64 x NaN = NaN"
| "divide_f64 (Fin a) (Fin b) =
     (if b = 0 then (if a = 0 then NaN else if 0 < a then PInf else NInf)
      else if a = 0 then (if b < 0 then NZero else Fin 0)
      else round64 (a / b))"
| "divide_f64 (Fin a) NZero = (if a = 0 then NaN else if 0 < a then NInf else PInf)"
| "divide_f64 NZero (Fin b) = (if b = 0 then NaN else if b < 0 then Fin 0 else NZero)"
| "divide_f64 NZero NZero = NaN"
| "divide_f64 (Fin a) PInf = (if a < 0 then NZero else Fin 0)"
| "divide_f64 (Fin a) NInf = (if a < 0 then Fin 0 else NZero)"
| "divide_f64 NZero PInf = NZero"
| "divide_f64 NZero NInf = Fin 0"
| "divide_f64 PInf (Fin b) = (if b < 0 then NInf else PInf)"
| "divide_f64 NInf (Fin b) = (if b < 0 then PInf else NInf)"
| "divide_f64 PInf NZero = NInf"
| "divide_f64 NInf NZero = PInf"
| "divide_f64 PInf y = NaN"
| "divide_f64 NInf y = NaN"

definition inverse_f64 :: "f64 \<Rightarrow> f64" where
  "inverse_f64 x = Fin 1 div x"

instance ..

end

text \<open>
  The operations are the instances of \<open>+\<close>, \<open>-\<close>, \<open>*\<close> and \<open>/\<close> for this type
  (\<open>inverse\<close> is defined because the sign \<open>/\<close> belongs to its class; the source has
  no use of it).
\<close>

text \<open>
  Go's \<open>x != y\<close> on floats: a NaN differs from everything, itself included, and the
  two zeros are equal.
\<close>

definition drop_zero_sign :: "f64 \<Rightarrow> f64" where
  "drop_zero_sign x = (if x = NZero then Fin 0 else x)"

definition f64_ne :: "f64 \<Rightarrow> f64 \<Rightarrow> bool" where
  "f64_ne x y = (x = NaN \<or> y = NaN \<or> drop_zero_sign x \<noteq> drop_zero_sign y)"

text \<open>The conversions \<open>float64(u)\<close> of a \<open>uint64\<close> and \<open>float64(v)\<close> of an integer.\<close>

definition f64_of_uint64 :: "64 word \<Rightarrow> f64" where
  "f64_of_uint64 w = round64 (of_int (uint w))"

definition f64_of_int :: "int \<Rightarrow> f64" where
  "f64_of_int v = round64 (of_int v)"

definition is_finite :: "f64 \<Rightarrow> bool" where
  "is_finite x = (case x of Fin a \<Rightarrow> True | NZero \<Rightarrow> True | _ \<Rightarrow> False)"

text \<open>Go's \<open>x < 0\<close>: neither of the zeros nor a NaN is below zero.\<close>

definition is_negative :: "f64 \<Rightarrow> bool" where
  "is_negative x = (case x of Fin a \<Rightarrow> a < 0 | NInf \<Rightarrow> True | _ \<Rightarrow> False)"

subsection \<open>Data\<close>

text \<open>A Go \<open>error\<close> is modelled by its message; \<open>nil\<close> is \<open>None\<close>.\<close>

type_synonym error = string

definition cpuCheckName :: string where
  "cpuCheckName = ''cpu''"

record TimesStat =
  CPU :: string
  User :: f64
  System :: f64
  Idle :: f64

text \<open>
  The handle of a performance counter belongs to package \<open>pdhutil\<close>; here it is the
  triple of names it was asked for.
\<close>

datatype PdhCounterSet = PdhCounterSet string string string

text \<open>
  \<open>CheckBase\<close> is reduced to the name it was built with. A nil \<open>counter\<close> is \<open>None\<close>.
\<close>

record CPUCheck =
  CheckBase :: string
  nbCPU :: f64
  lastNbCycle :: f64
  lastTimes :: TimesStat
  counter :: "PdhCounterSet option"

record FILETIME =
  DwLowDateTime :: "32 word"
  DwHighDateTime :: "32 word"

definition Total :: "TimesStat \<Rightarrow> f64" where
  "Total c = User c + System c + Idle c"

subsection \<open>Times\<close>

text \<open>
  What one call of \<open>GetSystemTimes\<close> gave: the returned value \<open>r\<close>, the three
  structures it filled, and what \<open>windows.GetLastError()\<close> reports afterwards.
\<close>

record GetSystemTimes_call =
  r_result :: "64 word"
  lpIdleTime :: FILETIME
  lpKernelTime :: FILETIME
  lpUserTime :: FILETIME
  GetLastError :: "error option"

definition filetime_uint64 :: "FILETIME \<Rightarrow> 64 word" where
  "filetime_uint64 ft = push_bit 32 (ucast (DwHighDateTime ft)) + ucast (DwLowDateTime ft)"

definition Times :: "GetSystemTimes_call \<Rightarrow> TimesStat list \<times> error option" where
  "Times os =
     (if r_result os = 0 then ([], GetLastError os)
      else
        let idle = filetime_uint64 (lpIdleTime os);
            user = filetime_uint64 (lpUserTime os);
            kernel = filetime_uint64 (lpKernelTime os);
            system = kernel - idle
        in ([\<lparr>CPU = ''cpu-total'',
               User = f64_of_uint64 user,
               System = f64_of_uint64 system,
               Idle = f64_of_uint64 idle\<rparr>], None))"

subsection \<open>The metric sender\<close>

text \<open>
  The calls made on the sender during one \<open>Run\<close>, in order.
  \<open>Gauge name value hostname tags\<close>; the source always passes the empty
  hostname and nil tags, both \<open>[]\<close> here.
\<close>

datatype sender_call = Gauge string f64 string "string list" | Commit

text \<open>The names under which the six categories are reported.\<close>

definition category_names :: "string list" where
  "category_names =
     [''system.cpu.user'', ''system.cpu.system'', ''system.cpu.iowait'',
      ''system.cpu.idle'', ''system.cpu.stolen'', ''system.cpu.guest'']"

fun gauge_name :: "sender_call \<Rightarrow> string option" where
  "gauge_name (Gauge name v h tags) = Some name"
| "gauge_name Commit = None"

fun gauge_value :: "sender_call \<Rightarrow> f64 option" where
  "gauge_value (Gauge name v h tags) = Some v"
| "gauge_value Commit = None"

definition is_category_gauge :: "sender_call \<Rightarrow> bool" where
  "is_category_gauge q =
     (case gauge_name q of None \<Rightarrow> False | Some name \<Rightarrow> name \<in> set category_names)"

text \<open>The category gauges among the calls of a cycle, and their values.\<close>

definition category_gauges :: "sender_call list \<Rightarrow> sender_call list" where
  "category_gauges calls = filter is_category_gauge calls"

definition category_rates :: "sender_call list \<Rightarrow> f64 list" where
  "category_rates calls = List.map_filter gauge_value (category_gauges calls)"


subsection \<open>Run\<close>

text \<open>
  What the calls of one \<open>Run\<close> gave: \<open>aggregator.GetSender\<close> (an error or a sender),
  \<open>times()\<close> (the variable \<open>times\<close> holds \<open>Times\<close> unless a test replaces it), and
  \<open>c.counter.GetSingleValue()\<close> (an error or the counter's reading, an integer that
  \<open>Run\<close> converts with \<open>float64(val)\<close>).
\<close>

record Run_calls =
  GetSender :: "error option"
  times :: "TimesStat list \<times> error option"
  GetSingleValue :: "error + int"

text \<open>
  \<open>Run\<close> returns its error, the calls it made on the sender and the check as it
  leaves it. The log lines are not part of the model.
\<close>

definition Run :: "Run_calls \<Rightarrow> CPUCheck \<Rightarrow> error option \<times> sender_call list \<times> CPUCheck" where
  "Run env c =
     (case GetSender env of
        Some err \<Rightarrow> (Some err, [], c)
      | None \<Rightarrow>
          (case times env of
             (cpuTimes, Some err) \<Rightarrow> (Some err, [], c)
           | (cpuTimes, None) \<Rightarrow>
               (case cpuTimes of
                  [] \<Rightarrow> (Some ''no cpu stats retrieve (empty results)'', [], c)
                | t # rest \<Rightarrow>
                    let nbCycle = Total t / nbCPU c;
                        q1 = (if f64_ne (lastNbCycle c) (Fin 0) then
                                let toPercent = Fin 100 / (nbCycle - lastNbCycle c);
                                    user = (User t - User (lastTimes c)) / nbCPU c;
                                    system = (System t - System (lastTimes c)) / nbCPU c;
                                    iowait = Fin 0;
                                    idle = (Idle t - Idle (lastTimes c)) / nbCPU c;
                                    stolen = Fin 0;
                                    guest = Fin 0
                                in [Gauge ''system.cpu.user'' (user * toPercent) [] [],
                                    Gauge ''system.cpu.system'' (system * toPercent) [] [],
                                    Gauge ''system.cpu.iowait'' (iowait * toPercent) [] [],
                                    Gauge ''system.cpu.idle'' (idle * toPercent) [] [],
                                    Gauge ''system.cpu.stolen'' (stolen * toPercent) [] [],
                                    Gauge ''system.cpu.guest'' (guest * toPercent) [] []]
                              else []);
                        q2 = (case GetSingleValue env of
                                Inl err \<Rightarrow> q1
                              | Inr val \<Rightarrow> q1 @ [Gauge ''system.cpu.interrupt'' (f64_of_int val) [] []]);
                        q3 = q2 @ [Commit]
                    in (None, q3, c\<lparr>lastNbCycle := nbCycle, lastTimes := t\<rparr>))))"

subsection \<open>Configure\<close>

text \<open>
  What the calls of one \<open>Configure\<close> gave: \<open>cpu.GetCpuInfo()\<close> (an error or the map of
  the host's CPU properties), \<open>pdhutil.GetCounterSet\<close> (the handle and the error it
  returned), and the library function \<open>strconv.ParseFloat\<close> (the number and the error
  it gives for a string).
\<close>

record Configure_calls =
  GetCpuInfo :: "error + (string \<rightharpoonup> string)"
  ParseFloat :: "string \<Rightarrow> f64 \<times> error option"
  GetCounterSet :: "PdhCounterSet option \<times> error option"

text \<open>Reading a Go map of strings: a missing key gives the empty string.\<close>

definition map_index :: "(string \<rightharpoonup> string) \<Rightarrow> string \<Rightarrow> string" where
  "map_index m k = (case m k of None \<Rightarrow> [] | Some v \<Rightarrow> v)"

definition Configure :: "Configure_calls \<Rightarrow> CPUCheck \<Rightarrow> error option \<times> CPUCheck" where
  "Configure env c =
     (case GetCpuInfo env of
        Inl err \<Rightarrow> (Some ''system.CPUCheck: could not query CPU info'', c)
      | Inr info \<Rightarrow>
          let cpucount = fst (ParseFloat env (map_index info ''cpu_logical_processors''));
              c1 = c\<lparr>nbCPU := cpucount\<rparr>;
              c2 = c1\<lparr>counter := fst (GetCounterSet env)\<rparr>
          in (case snd (GetCounterSet env) of
                Some err \<Rightarrow>
                  (Some (''system.CPUCheck could not establish interrupt time counter '' @ err), c2)
              | None \<Rightarrow> (None, c2)))"

text \<open>The check as the factory builds it: every field but the name has Go's zero value.\<close>

definition cpuFactory :: CPUCheck where
  "cpuFactory =
     \<lparr>CheckBase = cpuCheckName, nbCPU = Fin 0, lastNbCycle = Fin 0,
      lastTimes = \<lparr>CPU = [], User = Fin 0, System = Fin 0, Idle = Fin 0\<rparr>,
      counter = None\<rparr>"

subsection \<open>An instance of \<open>strconv.ParseFloat\<close>\<close>

text \<open>
  \<open>strconv.ParseFloat\<close> is Go's, and \<open>Configure\<close> above works with whatever it
  returns. Where a concrete host is evaluated below, this instance stands for it. A
  non-empty string of decimal digits parses to the \<open>float64\<close> nearest to its value
  with no error, or to the infinity with a range error when the value is too large.
  The empty string (what a missing key reads as) and a string with any other character
  give the value 0 and a syntax error. That is Go's answer for the strings used below:
  the empty string, digit strings and words that are no number at all. It is not Go's
  answer for the signed, fractional, exponent, hexadecimal, infinity and NaN forms,
  which Go also accepts and which are not used.
\<close>

fun decimal_value :: "nat \<Rightarrow> string \<Rightarrow> nat option" where
  "decimal_value acc [] = Some acc"
| "decimal_value acc (ch # cs) =
     (let d = (of_char ch :: nat)
      in if 48 \<le> d \<and> d \<le> 57 then decimal_value (10 * acc + (d - 48)) cs else None)"

definition ParseFloat_decimal :: "string \<Rightarrow> f64 \<times> error option" where
  "ParseFloat_decimal s =
     (case (if s = [] then None else decimal_value 0 s) of
        Some n \<Rightarrow>
          (case round64 (of_nat n) of
             PInf \<Rightarrow> (PInf, Some ''value out of range'')
           | v \<Rightarrow> (v, None))
      | None \<Rightarrow> (Fin 0, Some ''invalid syntax''))"

section \<open>Properties\<close>

subsection \<open>Auxiliary facts: float64\<close>

lemma round64_0: "round64 0 = Fin 0"
  by (simp add: round64_def)

lemma pow2_pos: "0 < pow2 k"
  by (simp add: pow2_def)

lemma round_half_even_nonneg: "0 \<le> m \<Longrightarrow> 0 \<le> round_half_even m"
  by (auto simp: round_half_even_def Let_def)

lemma round64_not_negative: "0 \<le> x \<Longrightarrow> \<not> is_negative (round64 x)"
proof (cases "x = 0")
  case True
  then show ?thesis by (simp add: round64_def is_negative_def)
next
  case False
  assume "0 \<le> x"
  with False have pos: "0 < x" by simp
  have nonneg: "\<not> rat_of_int (round_half_even (x / pow2 k)) * pow2 k < 0" for k
  proof -
    have "0 \<le> x / pow2 k" using pos pow2_pos [of k] by simp
    then have "0 \<le> round_half_even (x / pow2 k)" by (rule round_half_even_nonneg)
    then have "(0::rat) \<le> of_int (round_half_even (x / pow2 k)) * pow2 k"
      using pow2_pos [of k] by simp
    then show ?thesis by (simp only: not_less)
  qed
  show ?thesis
    using pos by (simp add: round64_def Let_def is_negative_def nonneg)
qed






lemma f64_minus_Fin: "Fin a - Fin b = (if b = 0 then Fin a else round64 (a - b))"
  by (simp add: minus_f64_def)


lemma f64_minus_self: "Fin a - Fin a = Fin 0"
  by (simp add: f64_minus_Fin round64_0)



lemma f64_ne_Fin: "f64_ne (Fin a) (Fin b) = (a \<noteq> b)"
  by (simp add: f64_ne_def drop_zero_sign_def)

lemma times_PInf_not_finite: "\<not> is_finite (x * PInf)"
  by (cases x) (simp_all add: is_finite_def)

text \<open>
  A difference of a value with itself, divided by anything and multiplied by an
  infinity, is a NaN: the difference is a zero or a NaN, and so is the quotient.
\<close>

lemma self_difference_times_PInf: "(x - x) / y * PInf = NaN"
proof -
  have "x - x = Fin 0 \<or> x - x = NaN"
    by (cases x) (simp_all add: minus_f64_def round64_0)
  moreover have "Fin 0 / y = Fin 0 \<or> Fin 0 / y = NZero \<or> Fin 0 / y = NaN"
    by (cases y) simp_all
  ultimately show ?thesis by auto
qed

subsection \<open>Auxiliary facts: the 64-bit tick counts\<close>

lemma unat_filetime_uint64:
  "unat (filetime_uint64 ft) = 2 ^ 32 * unat (DwHighDateTime ft) + unat (DwLowDateTime ft)"
proof -
  let ?h = "DwHighDateTime ft" and ?l = "DwLowDateTime ft"
  have h: "unat ?h < 2 ^ 32" using unsigned_less [of ?h] by simp
  have l: "unat ?l < 2 ^ 32" using unsigned_less [of ?l] by simp
  have uh: "unat (ucast ?h :: 64 word) = unat ?h"
    using h by (simp add: unsigned_ucast_eq take_bit_nat_eq_self)
  have ul: "unat (ucast ?l :: 64 word) = unat ?l"
    using l by (simp add: unsigned_ucast_eq take_bit_nat_eq_self)
  have "2 ^ 32 * unat ?h < (2 ^ 64 :: nat)" using h by simp
  moreover have "unat (push_bit 32 (ucast ?h :: 64 word))
                 = take_bit 64 (push_bit 32 (unat (ucast ?h :: 64 word)))"
    by (simp only: unsigned_push_bit_eq len_bit0 len_num1) simp
  ultimately have ph: "unat (push_bit 32 (ucast ?h :: 64 word)) = 2 ^ 32 * unat ?h"
    by (simp add: uh push_bit_eq_mult take_bit_nat_eq_self mult.commute)
  have "unat (push_bit 32 (ucast ?h :: 64 word)) + unat (ucast ?l :: 64 word) < 2 ^ LENGTH(64)"
    using h l by (simp add: ph ul)
  then have "unat (push_bit 32 (ucast ?h :: 64 word) + ucast ?l)
             = unat (push_bit 32 (ucast ?h :: 64 word)) + unat (ucast ?l :: 64 word)"
    by (simp only: unat_add_lem)
  then show ?thesis by (simp add: filetime_uint64_def ph ul)
qed

text \<open>
  The number a \<open>FILETIME\<close> denotes: the high word counts units of \<open>2^32\<close>.
\<close>

lemma uint_filetime_uint64:
  "uint (filetime_uint64 ft) = 2 ^ 32 * uint (DwHighDateTime ft) + uint (DwLowDateTime ft)"
proof -
  have "uint (filetime_uint64 ft) = int (unat (filetime_uint64 ft))"
    by (simp only: uint_nat)
  also have "\<dots> = int (2 ^ 32 * unat (DwHighDateTime ft) + unat (DwLowDateTime ft))"
    by (simp only: unat_filetime_uint64)
  also have "\<dots> = 2 ^ 32 * uint (DwHighDateTime ft) + uint (DwLowDateTime ft)"
    by (simp only: uint_nat of_nat_add of_nat_mult of_nat_power of_nat_numeral)
  finally show ?thesis .
qed

text \<open>The subtraction of two \<open>uint64\<close> values wraps around below zero.\<close>

lemma uint_sub_wraps:
  "uint (k - i :: 64 word) = (if uint i \<le> uint k then uint k - uint i else 2 ^ 64 + uint k - uint i)"
proof -
  have k: "0 \<le> uint k" "uint k < 2 ^ 64" using uint_lt2p [of k] by simp_all
  have i: "0 \<le> uint i" "uint i < 2 ^ 64" using uint_lt2p [of i] by simp_all
  have "uint (k - i) = (uint k - uint i) mod 2 ^ 64"
    by (simp add: uint_word_ariths)
  also have "\<dots> = (if uint i \<le> uint k then uint k - uint i else 2 ^ 64 + uint k - uint i)"
  proof (cases "uint i \<le> uint k")
    case True
    then have "0 \<le> uint k - uint i" "uint k - uint i < 2 ^ 64" using k i by linarith+
    then show ?thesis using True by simp
  next
    case False
    then have "0 \<le> 2 ^ 64 + uint k - uint i" "2 ^ 64 + uint k - uint i < 2 ^ 64"
      using k i by linarith+
    then have "(2 ^ 64 + uint k - uint i) mod 2 ^ 64 = 2 ^ 64 + uint k - uint i"
      by simp
    moreover have "(uint k - uint i) mod 2 ^ 64 = (2 ^ 64 + uint k - uint i) mod 2 ^ 64"
      by (metis add.commute add_diff_eq mod_add_self2)
    ultimately show ?thesis using False by simp
  qed
  finally show ?thesis .
qed

subsection \<open>Auxiliary facts: Times and Run\<close>

lemma Times_success:
  "r_result os \<noteq> 0 \<Longrightarrow>
   Times os =
     ([\<lparr>CPU = ''cpu-total'',
        User = f64_of_uint64 (filetime_uint64 (lpUserTime os)),
        System = f64_of_uint64 (filetime_uint64 (lpKernelTime os) - filetime_uint64 (lpIdleTime os)),
        Idle = f64_of_uint64 (filetime_uint64 (lpIdleTime os))\<rparr>], None)"
  by (simp add: Times_def Let_def)

text \<open>
  The sample of a successful call, with the three tick counts as numbers: \<open>System\<close>
  is the conversion of the wrapped difference of the kernel and idle counts.
\<close>

lemma Times_success_ticks:
  assumes "r_result os \<noteq> 0"
    and "kernel_ticks = 2 ^ 32 * uint (DwHighDateTime (lpKernelTime os)) + uint (DwLowDateTime (lpKernelTime os))"
    and "idle_ticks = 2 ^ 32 * uint (DwHighDateTime (lpIdleTime os)) + uint (DwLowDateTime (lpIdleTime os))"
    and "user_ticks = 2 ^ 32 * uint (DwHighDateTime (lpUserTime os)) + uint (DwLowDateTime (lpUserTime os))"
  shows "Times os =
     ([\<lparr>CPU = ''cpu-total'',
        User = round64 (of_int user_ticks),
        System = round64 (of_int (if idle_ticks \<le> kernel_ticks then kernel_ticks - idle_ticks
                                  else 2 ^ 64 + kernel_ticks - idle_ticks)),
        Idle = round64 (of_int idle_ticks)\<rparr>], None)"
  unfolding Times_success [OF assms(1)] f64_of_uint64_def uint_sub_wraps
    uint_filetime_uint64 assms(2-4)
  by simp

lemma Run_sampled:
  assumes "GetSender env = None" and "times env = (t # rest, None)"
  shows "Run env c =
     (None,
      (if f64_ne (lastNbCycle c) (Fin 0) then
         [Gauge ''system.cpu.user''
            ((User t - User (lastTimes c)) / nbCPU c * (Fin 100 / (Total t / nbCPU c - lastNbCycle c))) [] [],
          Gauge ''system.cpu.system''
            ((System t - System (lastTimes c)) / nbCPU c * (Fin 100 / (Total t / nbCPU c - lastNbCycle c))) [] [],
          Gauge ''system.cpu.iowait'' (Fin 0 * (Fin 100 / (Total t / nbCPU c - lastNbCycle c))) [] [],
          Gauge ''system.cpu.idle''
            ((Idle t - Idle (lastTimes c)) / nbCPU c * (Fin 100 / (Total t / nbCPU c - lastNbCycle c))) [] [],
          Gauge ''system.cpu.stolen'' (Fin 0 * (Fin 100 / (Total t / nbCPU c - lastNbCycle c))) [] [],
          Gauge ''system.cpu.guest'' (Fin 0 * (Fin 100 / (Total t / nbCPU c - lastNbCycle c))) [] []]
       else [])
      @ (case GetSingleValue env of
           Inl err \<Rightarrow> []
         | Inr val \<Rightarrow> [Gauge ''system.cpu.interrupt'' (f64_of_int val) [] []])
      @ [Commit],
      c\<lparr>lastNbCycle := Total t / nbCPU c, lastTimes := t\<rparr>)"
  using assms by (simp add: Run_def Let_def split: sum.split)

lemma category_gauges_six:
  "category_gauges
     ([Gauge ''system.cpu.user'' v1 h1 g1, Gauge ''system.cpu.system'' v2 h2 g2,
       Gauge ''system.cpu.iowait'' v3 h3 g3, Gauge ''system.cpu.idle'' v4 h4 g4,
       Gauge ''system.cpu.stolen'' v5 h5 g5, Gauge ''system.cpu.guest'' v6 h6 g6]
      @ (case x of Inl err \<Rightarrow> [] | Inr val \<Rightarrow> [Gauge ''system.cpu.interrupt'' (f val) h7 g7])
      @ [Commit]) =
     [Gauge ''system.cpu.user'' v1 h1 g1, Gauge ''system.cpu.system'' v2 h2 g2,
      Gauge ''system.cpu.iowait'' v3 h3 g3, Gauge ''system.cpu.idle'' v4 h4 g4,
      Gauge ''system.cpu.stolen'' v5 h5 g5, Gauge ''system.cpu.guest'' v6 h6 g6]"
  by (simp add: category_gauges_def is_category_gauge_def category_names_def split: sum.split)

lemma category_gauges_none:
  "category_gauges
     ((case x of Inl err \<Rightarrow> [] | Inr val \<Rightarrow> [Gauge ''system.cpu.interrupt'' (f val) h7 g7])
      @ [Commit]) = []"
  by (simp add: category_gauges_def is_category_gauge_def category_names_def split: sum.split)

text \<open>The category gauges of a cycle with a stored baseline, for every sample.\<close>

lemma Run_category_gauges:
  assumes "GetSender env = None" and "times env = (t # rest, None)"
    and "f64_ne (lastNbCycle c) (Fin 0)"
  shows "category_gauges (fst (snd (Run env c))) =
      [Gauge ''system.cpu.user''
         ((User t - User (lastTimes c)) / nbCPU c * (Fin 100 / (Total t / nbCPU c - lastNbCycle c))) [] [],
       Gauge ''system.cpu.system''
         ((System t - System (lastTimes c)) / nbCPU c * (Fin 100 / (Total t / nbCPU c - lastNbCycle c))) [] [],
       Gauge ''system.cpu.iowait'' (Fin 0 * (Fin 100 / (Total t / nbCPU c - lastNbCycle c))) [] [],
       Gauge ''system.cpu.idle''
         ((Idle t - Idle (lastTimes c)) / nbCPU c * (Fin 100 / (Total t / nbCPU c - lastNbCycle c))) [] [],
       Gauge ''system.cpu.stolen'' (Fin 0 * (Fin 100 / (Total t / nbCPU c - lastNbCycle c))) [] [],
       Gauge ''system.cpu.guest'' (Fin 0 * (Fin 100 / (Total t / nbCPU c - lastNbCycle c))) [] []]"
  unfolding Run_sampled [OF assms(1,2)] using assms(3)
  by (simp only: fst_conv snd_conv if_True category_gauges_six)

subsection \<open>Times: the system category\<close>



subsection \<open>Run: the paths that return an error\<close>

lemma Run_sender_error:
  assumes "GetSender env = Some err"
  shows "Run env c = (Some err, [], c)"
  using assms by (simp add: Run_def)

lemma Run_empty_sample:
  assumes "GetSender env = None" and "times env = ([], None)"
  shows "Run env c = (Some ''no cpu stats retrieve (empty results)'', [], c)"
  using assms by (simp add: Run_def)

text \<open>
  With \<open>Times\<close> as the sampler: when the system call fails, \<open>Run\<close> returns the last
  error of the system if there is one and its own "empty results" error otherwise; in
  both cases nothing reaches the sender and the check is as before.
\<close>

lemma Run_Times_failed:
  assumes "GetSender env = None" and "times env = Times os" and "r_result os = 0"
  shows "Run env c =
     (Some (case GetLastError os of Some err \<Rightarrow> err
            | None \<Rightarrow> ''no cpu stats retrieve (empty results)''), [], c)"
  using assms by (simp add: Run_def Times_def split: option.split)

text \<open>
  Claim C4. When the sampling step of \<open>Run\<close> fails, that is when \<open>times()\<close> returns
  an error, \<open>Run\<close> returns that same error, makes no call on the sender (no gauge, no
  commit) and leaves the check as it found it, stored sample and cycle count included.
\<close>

theorem Run_sample_error:
  assumes "GetSender env = None" and "times env = (cpuTimes, Some err)"
  shows "Run env c = (Some err, [], c)"
  using assms by (simp add: Run_def)

theorem Run_sample_error_witness:
  "Run \<lparr>GetSender = None, times = ([], Some ''Access is denied.''), GetSingleValue = Inr 3\<rparr>
       \<lparr>CheckBase = ''cpu'', nbCPU = Fin 4, lastNbCycle = Fin 250,
        lastTimes = \<lparr>CPU = ''cpu-total'', User = Fin 100, System = Fin 50, Idle = Fin 850\<rparr>,
        counter = Some (PdhCounterSet ''Processor'' ''% Interrupt Time'' ''_Total'')\<rparr>
   = (Some ''Access is denied.'', [],
      \<lparr>CheckBase = ''cpu'', nbCPU = Fin 4, lastNbCycle = Fin 250,
       lastTimes = \<lparr>CPU = ''cpu-total'', User = Fin 100, System = Fin 50, Idle = Fin 850\<rparr>,
       counter = Some (PdhCounterSet ''Processor'' ''% Interrupt Time'' ''_Total'')\<rparr>)"
  using Run_sample_error
    [of "\<lparr>GetSender = None, times = ([], Some ''Access is denied.''), GetSingleValue = Inr 3\<rparr>"
        "[]" "''Access is denied.''"]
  by simp

subsection \<open>Run: the rates of a cycle with a stored baseline\<close>

text \<open>
  The check holds a stored baseline exactly when \<open>lastNbCycle\<close> differs from 0: this
  is the test \<open>Run\<close> makes before it computes rates.
\<close>

text \<open>
  Claim C1 gives the rates as \<open>((curr[c] - prev[c]) / n) * (100 / delta)\<close> with
  \<open>delta = (Total curr - Total prev) / n\<close>, for every pair of samples with \<open>delta\<close>
  positive. The source computes in \<open>float64\<close>, and it takes the difference of the two
  cycle counts, each rounded. With 1 CPU, the stored sample \<open>(2^53, 0, 0)\<close> (cycle
  count \<open>2^53\<close>) and the current sample \<open>(2^53, 1, 1)\<close>, \<open>delta\<close> is 2 and the claimed
  rates are 0, 50, 0, 50, 0, 0; but \<open>Total\<close> rounds to \<open>2^53\<close>, the difference of the
  cycle counts is 0, and \<open>Run\<close> emits NaN and infinities. And a stored sample whose
  total is 0 is no baseline for \<open>Run\<close>: with 4 CPUs, the stored sample \<open>(0, 0, 0)\<close> and
  the current sample \<open>(40, 20, 140)\<close>, \<open>delta\<close> is 50 and \<open>Run\<close> emits no category
  gauge.
\<close>

theorem Run_emits_rates_counterexample:
  "Total \<lparr>CPU = ''cpu-total'', User = Fin 9007199254740992, System = Fin 0, Idle = Fin 0\<rparr> / Fin 1
     = Fin 9007199254740992
   \<and> (0 :: rat) < ((9007199254740992 + 1 + 1) - (9007199254740992 + 0 + 0)) / 1
   \<and> category_gauges (fst (snd
        (Run \<lparr>GetSender = None,
              times = ([\<lparr>CPU = ''cpu-total'', User = Fin 9007199254740992, System = Fin 1,
                         Idle = Fin 1\<rparr>], None),
              GetSingleValue = Inr 3\<rparr>
             \<lparr>CheckBase = ''cpu'', nbCPU = Fin 1, lastNbCycle = Fin 9007199254740992,
              lastTimes = \<lparr>CPU = ''cpu-total'', User = Fin 9007199254740992, System = Fin 0,
                           Idle = Fin 0\<rparr>,
              counter = Some (PdhCounterSet ''Processor'' ''% Interrupt Time'' ''_Total'')\<rparr>)))
     = [Gauge ''system.cpu.user'' NaN [] [],
        Gauge ''system.cpu.system'' PInf [] [],
        Gauge ''system.cpu.iowait'' NaN [] [],
        Gauge ''system.cpu.idle'' PInf [] [],
        Gauge ''system.cpu.stolen'' NaN [] [],
        Gauge ''system.cpu.guest'' NaN [] []]
   \<and> (0 :: rat) < ((40 + 20 + 140) - (0 + 0 + 0)) / 4
   \<and> category_gauges (fst (snd
        (Run \<lparr>GetSender = None,
              times = ([\<lparr>CPU = ''cpu-total'', User = Fin 40, System = Fin 20, Idle = Fin 140\<rparr>], None),
              GetSingleValue = Inr 3\<rparr>
             \<lparr>CheckBase = ''cpu'', nbCPU = Fin 4, lastNbCycle = Fin 0,
              lastTimes = \<lparr>CPU = ''cpu-total'', User = Fin 0, System = Fin 0, Idle = Fin 0\<rparr>,
              counter = Some (PdhCounterSet ''Processor'' ''% Interrupt Time'' ''_Total'')\<rparr>)))
     = []"
proof -
  have rounded: "round64 9007199254740992 = Fin 9007199254740992"
    "round64 9007199254740993 = Fin 9007199254740992"
    "round64 1 = Fin 1" "round64 200 = Fin 200" "round64 60 = Fin 60" "round64 50 = Fin 50"
    by code_simp+
  show ?thesis
    by (simp add: Run_def Let_def Total_def f64_ne_def drop_zero_sign_def minus_f64_def
          category_gauges_def is_category_gauge_def category_names_def rounded round64_0)
qed

text \<open>
  Claim C1, amended. In every cycle where \<open>Run\<close> obtains the sender and a sample
  \<open>curr\<close> while the stored cycle count differs from 0, \<open>Run\<close> succeeds and emits the six
  category gauges in the order user, system, iowait, idle, stolen, guest. With
  \<open>toPercent = 100 / (Total curr / n - lastNbCycle)\<close>, the values of user, system and
  idle are \<open>((curr[c] - prev[c]) / n) * toPercent\<close> and those of iowait, stolen and
  guest are \<open>0 * toPercent\<close>, every operation being the \<open>float64\<close> one.
  \<open>0 * toPercent\<close> is zero whenever \<open>toPercent\<close> is finite. The witness is the
  scenario of the specification: 4 CPUs, from (100, 50, 850) to (140, 70, 990), giving
  20, 10, 0, 70, 0, 0.
\<close>

theorem Run_emits_rates:
  assumes "GetSender env = None" and "times env = (cur # rest, None)"
    and "f64_ne (lastNbCycle c) (Fin 0)"
    and "prev = lastTimes c" and "n = nbCPU c"
    and "toPercent = Fin 100 / (Total cur / n - lastNbCycle c)"
  shows "fst (Run env c) = None
       \<and> category_gauges (fst (snd (Run env c))) =
           [Gauge ''system.cpu.user'' ((User cur - User prev) / n * toPercent) [] [],
            Gauge ''system.cpu.system'' ((System cur - System prev) / n * toPercent) [] [],
            Gauge ''system.cpu.iowait'' (Fin 0 * toPercent) [] [],
            Gauge ''system.cpu.idle'' ((Idle cur - Idle prev) / n * toPercent) [] [],
            Gauge ''system.cpu.stolen'' (Fin 0 * toPercent) [] [],
            Gauge ''system.cpu.guest'' (Fin 0 * toPercent) [] []]
       \<and> (is_finite toPercent \<longrightarrow> \<not> f64_ne (Fin 0 * toPercent) (Fin 0))"
proof -
  have "fst (Run env c) = None"
    unfolding Run_sampled [OF assms(1,2)] by simp
  moreover have "is_finite toPercent \<longrightarrow> \<not> f64_ne (Fin 0 * toPercent) (Fin 0)"
    by (cases toPercent) (simp_all add: is_finite_def f64_ne_def drop_zero_sign_def)
  ultimately show ?thesis
    unfolding Run_category_gauges [OF assms(1-3)] assms(4-6) by simp
qed

theorem Run_emits_rates_witness:
  "fst (Run \<lparr>GetSender = None,
             times = ([\<lparr>CPU = ''cpu-total'', User = Fin 140, System = Fin 70, Idle = Fin 990\<rparr>], None),
             GetSingleValue = Inr 3\<rparr>
            \<lparr>CheckBase = ''cpu'', nbCPU = Fin 4, lastNbCycle = Fin 250,
             lastTimes = \<lparr>CPU = ''cpu-total'', User = Fin 100, System = Fin 50, Idle = Fin 850\<rparr>,
             counter = Some (PdhCounterSet ''Processor'' ''% Interrupt Time'' ''_Total'')\<rparr>) = None
   \<and> category_gauges (fst (snd
        (Run \<lparr>GetSender = None,
              times = ([\<lparr>CPU = ''cpu-total'', User = Fin 140, System = Fin 70, Idle = Fin 990\<rparr>], None),
              GetSingleValue = Inr 3\<rparr>
             \<lparr>CheckBase = ''cpu'', nbCPU = Fin 4, lastNbCycle = Fin 250,
              lastTimes = \<lparr>CPU = ''cpu-total'', User = Fin 100, System = Fin 50, Idle = Fin 850\<rparr>,
              counter = Some (PdhCounterSet ''Processor'' ''% Interrupt Time'' ''_Total'')\<rparr>)))
     = [Gauge ''system.cpu.user'' (Fin 20) [] [],
        Gauge ''system.cpu.system'' (Fin 10) [] [],
        Gauge ''system.cpu.iowait'' (Fin 0) [] [],
        Gauge ''system.cpu.idle'' (Fin 70) [] [],
        Gauge ''system.cpu.stolen'' (Fin 0) [] [],
        Gauge ''system.cpu.guest'' (Fin 0) [] []]"
proof -
  have rounded: "round64 210 = Fin 210" "round64 1200 = Fin 1200" "round64 300 = Fin 300"
    "round64 50 = Fin 50" "round64 2 = Fin 2" "round64 40 = Fin 40" "round64 10 = Fin 10"
    "round64 20 = Fin 20" "round64 5 = Fin 5" "round64 140 = Fin 140" "round64 35 = Fin 35"
    "round64 70 = Fin 70"
    by code_simp+
  show ?thesis
    using Run_emits_rates
      [of "\<lparr>GetSender = None,
            times = ([\<lparr>CPU = ''cpu-total'', User = Fin 140, System = Fin 70, Idle = Fin 990\<rparr>], None),
            GetSingleValue = Inr 3\<rparr>"
          "\<lparr>CPU = ''cpu-total'', User = Fin 140, System = Fin 70, Idle = Fin 990\<rparr>" "[]"
          "\<lparr>CheckBase = ''cpu'', nbCPU = Fin 4, lastNbCycle = Fin 250,
            lastTimes = \<lparr>CPU = ''cpu-total'', User = Fin 100, System = Fin 50, Idle = Fin 850\<rparr>,
            counter = Some (PdhCounterSet ''Processor'' ''% Interrupt Time'' ''_Total'')\<rparr>"
          "\<lparr>CPU = ''cpu-total'', User = Fin 100, System = Fin 50, Idle = Fin 850\<rparr>"
          "Fin 4" "Fin 2"]
    by (simp add: Total_def f64_ne_def drop_zero_sign_def minus_f64_def rounded)
qed

subsection \<open>Run: the sum of the rates\<close>






subsection \<open>Run: the interrupt counter\<close>

text \<open>
  Claim C5. In a cycle where the sample is taken and a baseline is stored, a failing
  query of the interrupt counter does not fail the cycle: \<open>Run\<close> returns no error, the
  calls on the sender are the six category gauges followed by the commit, and the
  check advances to the new sample. The only difference from the same cycle with a
  reading \<open>val\<close> is the one gauge \<open>system.cpu.interrupt\<close> before the commit.
\<close>

theorem Run_counter_unavailable:
  assumes "GetSender env = None" and "times env = (t # rest, None)"
    and "f64_ne (lastNbCycle c) (Fin 0)"
    and "GetSingleValue env = Inl err"
  shows "fst (Run env c) = None
       \<and> map gauge_name (category_gauges (fst (snd (Run env c)))) = map Some category_names
       \<and> fst (snd (Run env c)) = category_gauges (fst (snd (Run env c))) @ [Commit]
       \<and> snd (snd (Run env c)) = c\<lparr>lastNbCycle := Total t / nbCPU c, lastTimes := t\<rparr>
       \<and> fst (snd (Run (env\<lparr>GetSingleValue := Inr val\<rparr>) c)) =
           category_gauges (fst (snd (Run env c)))
           @ [Gauge ''system.cpu.interrupt'' (f64_of_int val) [] [], Commit]"
proof -
  have with_reading: "GetSender (env\<lparr>GetSingleValue := Inr val\<rparr>) = None"
    "times (env\<lparr>GetSingleValue := Inr val\<rparr>) = (t # rest, None)"
    using assms(1,2) by simp_all
  have gauges: "category_gauges (fst (snd (Run env c))) =
      [Gauge ''system.cpu.user''
         ((User t - User (lastTimes c)) / nbCPU c * (Fin 100 / (Total t / nbCPU c - lastNbCycle c))) [] [],
       Gauge ''system.cpu.system''
         ((System t - System (lastTimes c)) / nbCPU c * (Fin 100 / (Total t / nbCPU c - lastNbCycle c))) [] [],
       Gauge ''system.cpu.iowait'' (Fin 0 * (Fin 100 / (Total t / nbCPU c - lastNbCycle c))) [] [],
       Gauge ''system.cpu.idle''
         ((Idle t - Idle (lastTimes c)) / nbCPU c * (Fin 100 / (Total t / nbCPU c - lastNbCycle c))) [] [],
       Gauge ''system.cpu.stolen'' (Fin 0 * (Fin 100 / (Total t / nbCPU c - lastNbCycle c))) [] [],
       Gauge ''system.cpu.guest'' (Fin 0 * (Fin 100 / (Total t / nbCPU c - lastNbCycle c))) [] []]"
    unfolding Run_sampled [OF assms(1,2)] using assms(3)
    by (simp only: fst_conv snd_conv if_True category_gauges_six)
  show ?thesis
    unfolding gauges
    unfolding Run_sampled [OF assms(1,2)] Run_sampled [OF with_reading]
    using assms(3,4) by (simp add: category_names_def)
qed

theorem Run_counter_unavailable_witness:
  "Run \<lparr>GetSender = None,
        times = ([\<lparr>CPU = ''cpu-total'', User = Fin 140, System = Fin 70, Idle = Fin 990\<rparr>], None),
        GetSingleValue = Inl ''counter not available''\<rparr>
       \<lparr>CheckBase = ''cpu'', nbCPU = Fin 4, lastNbCycle = Fin 250,
        lastTimes = \<lparr>CPU = ''cpu-total'', User = Fin 100, System = Fin 50, Idle = Fin 850\<rparr>,
        counter = Some (PdhCounterSet ''Processor'' ''% Interrupt Time'' ''_Total'')\<rparr>
   = (None,
      category_gauges (fst (snd
        (Run \<lparr>GetSender = None,
              times = ([\<lparr>CPU = ''cpu-total'', User = Fin 140, System = Fin 70, Idle = Fin 990\<rparr>], None),
              GetSingleValue = Inl ''counter not available''\<rparr>
             \<lparr>CheckBase = ''cpu'', nbCPU = Fin 4, lastNbCycle = Fin 250,
              lastTimes = \<lparr>CPU = ''cpu-total'', User = Fin 100, System = Fin 50, Idle = Fin 850\<rparr>,
              counter = Some (PdhCounterSet ''Processor'' ''% Interrupt Time'' ''_Total'')\<rparr>)))
      @ [Commit],
      \<lparr>CheckBase = ''cpu'', nbCPU = Fin 4, lastNbCycle = Fin 300,
       lastTimes = \<lparr>CPU = ''cpu-total'', User = Fin 140, System = Fin 70, Idle = Fin 990\<rparr>,
       counter = Some (PdhCounterSet ''Processor'' ''% Interrupt Time'' ''_Total'')\<rparr>)
   \<and> map gauge_name (category_gauges (fst (snd
        (Run \<lparr>GetSender = None,
              times = ([\<lparr>CPU = ''cpu-total'', User = Fin 140, System = Fin 70, Idle = Fin 990\<rparr>], None),
              GetSingleValue = Inl ''counter not available''\<rparr>
             \<lparr>CheckBase = ''cpu'', nbCPU = Fin 4, lastNbCycle = Fin 250,
              lastTimes = \<lparr>CPU = ''cpu-total'', User = Fin 100, System = Fin 50, Idle = Fin 850\<rparr>,
              counter = Some (PdhCounterSet ''Processor'' ''% Interrupt Time'' ''_Total'')\<rparr>))))
     = [Some ''system.cpu.user'', Some ''system.cpu.system'', Some ''system.cpu.iowait'',
        Some ''system.cpu.idle'', Some ''system.cpu.stolen'', Some ''system.cpu.guest'']"
proof -
  have rounded: "round64 210 = Fin 210" "round64 1200 = Fin 1200" "round64 300 = Fin 300"
    by code_simp+
  show ?thesis
  using Run_counter_unavailable
    [of "\<lparr>GetSender = None,
          times = ([\<lparr>CPU = ''cpu-total'', User = Fin 140, System = Fin 70, Idle = Fin 990\<rparr>], None),
          GetSingleValue = Inl ''counter not available''\<rparr>"
        "\<lparr>CPU = ''cpu-total'', User = Fin 140, System = Fin 70, Idle = Fin 990\<rparr>" "[]"
        "\<lparr>CheckBase = ''cpu'', nbCPU = Fin 4, lastNbCycle = Fin 250,
          lastTimes = \<lparr>CPU = ''cpu-total'', User = Fin 100, System = Fin 50, Idle = Fin 850\<rparr>,
          counter = Some (PdhCounterSet ''Processor'' ''% Interrupt Time'' ''_Total'')\<rparr>"
        "''counter not available''" 0]
    by (simp add: Total_def f64_ne_def drop_zero_sign_def category_names_def prod_eq_iff rounded)
qed

subsection \<open>Run: the first cycle\<close>

lemma Configure_keeps_baseline:
  "Configure env c = (e, c') \<Longrightarrow> lastNbCycle c' = lastNbCycle c \<and> lastTimes c' = lastTimes c"
  by (auto simp: Configure_def Let_def split: sum.splits option.splits)

lemma Run_without_baseline:
  assumes "\<not> f64_ne (lastNbCycle c) (Fin 0)"
  shows "category_gauges (fst (snd (Run env c))) = []"
proof (cases "GetSender env")
  case (Some err)
  then show ?thesis by (simp add: Run_sender_error category_gauges_def)
next
  case None
  obtain cpuTimes e where tm: "times env = (cpuTimes, e)" by (cases "times env")
  show ?thesis
  proof (cases e)
    case (Some err)
    with None tm show ?thesis by (simp add: Run_def category_gauges_def)
  next
    case no_error: None
    show ?thesis
    proof (cases cpuTimes)
      case Nil
      with None tm no_error show ?thesis by (simp add: Run_empty_sample category_gauges_def)
    next
      case (Cons t rest)
      with tm no_error have "times env = (t # rest, None)" by simp
      from Run_sampled [OF None this] assms show ?thesis
        by (simp only: fst_conv snd_conv if_False append_Nil category_gauges_none)
    qed
  qed
qed

text \<open>
  Claim C2. Take the check as the factory builds it and configure it successfully.
  Whatever the first \<open>Run\<close> meets, it emits no category gauge. When it obtains the
  sender and a sample, it returns no error, its only calls are the interrupt gauge (if
  the counter gave a reading) and the commit, and it stores the sample and the
  sample's cycle count as the baseline.
\<close>

theorem first_Run_seeds_baseline:
  assumes "Configure cenv cpuFactory = (None, c)"
  shows "category_gauges (fst (snd (Run env c))) = []
       \<and> (GetSender env = None \<longrightarrow> times env = (t # rest, None) \<longrightarrow>
            Run env c =
              (None,
               (case GetSingleValue env of
                  Inl err \<Rightarrow> []
                | Inr val \<Rightarrow> [Gauge ''system.cpu.interrupt'' (f64_of_int val) [] []])
               @ [Commit],
               c\<lparr>lastNbCycle := Total t / nbCPU c, lastTimes := t\<rparr>))"
proof -
  have "lastNbCycle c = Fin 0"
    using Configure_keeps_baseline [OF assms] by (simp add: cpuFactory_def)
  then have fresh: "\<not> f64_ne (lastNbCycle c) (Fin 0)"
    by (simp add: f64_ne_def drop_zero_sign_def)
  have "Run env c =
          (None,
           (case GetSingleValue env of
              Inl err \<Rightarrow> []
            | Inr val \<Rightarrow> [Gauge ''system.cpu.interrupt'' (f64_of_int val) [] []])
           @ [Commit],
           c\<lparr>lastNbCycle := Total t / nbCPU c, lastTimes := t\<rparr>)"
    if "GetSender env = None" and "times env = (t # rest, None)"
    using Run_sampled [OF that] fresh by simp
  with Run_without_baseline [OF fresh] show ?thesis by simp
qed

theorem first_Run_seeds_baseline_witness:
  "Configure \<lparr>GetCpuInfo = Inr (map_of [(''cpu_logical_processors'', ''4'')]),
              ParseFloat = ParseFloat_decimal,
              GetCounterSet = (Some (PdhCounterSet ''Processor'' ''% Interrupt Time'' ''_Total''), None)\<rparr>
             cpuFactory
   = (None,
      \<lparr>CheckBase = ''cpu'', nbCPU = Fin 4, lastNbCycle = Fin 0,
       lastTimes = \<lparr>CPU = [], User = Fin 0, System = Fin 0, Idle = Fin 0\<rparr>,
       counter = Some (PdhCounterSet ''Processor'' ''% Interrupt Time'' ''_Total'')\<rparr>)
   \<and> Run \<lparr>GetSender = None,
          times = ([\<lparr>CPU = ''cpu-total'', User = Fin 100, System = Fin 50, Idle = Fin 850\<rparr>], None),
          GetSingleValue = Inr 3\<rparr>
         \<lparr>CheckBase = ''cpu'', nbCPU = Fin 4, lastNbCycle = Fin 0,
          lastTimes = \<lparr>CPU = [], User = Fin 0, System = Fin 0, Idle = Fin 0\<rparr>,
          counter = Some (PdhCounterSet ''Processor'' ''% Interrupt Time'' ''_Total'')\<rparr>
   = (None,
      [Gauge ''system.cpu.interrupt'' (Fin 3) [] [], Commit],
      \<lparr>CheckBase = ''cpu'', nbCPU = Fin 4, lastNbCycle = Fin 250,
       lastTimes = \<lparr>CPU = ''cpu-total'', User = Fin 100, System = Fin 50, Idle = Fin 850\<rparr>,
       counter = Some (PdhCounterSet ''Processor'' ''% Interrupt Time'' ''_Total'')\<rparr>)"
proof -
  have rounded: "round64 4 = Fin 4" "round64 3 = Fin 3" "round64 150 = Fin 150"
    "round64 1000 = Fin 1000" "round64 250 = Fin 250"
    by code_simp+
  have configured:
    "Configure \<lparr>GetCpuInfo = Inr (map_of [(''cpu_logical_processors'', ''4'')]),
                ParseFloat = ParseFloat_decimal,
                GetCounterSet = (Some (PdhCounterSet ''Processor'' ''% Interrupt Time'' ''_Total''), None)\<rparr>
               cpuFactory
     = (None,
        \<lparr>CheckBase = ''cpu'', nbCPU = Fin 4, lastNbCycle = Fin 0,
         lastTimes = \<lparr>CPU = [], User = Fin 0, System = Fin 0, Idle = Fin 0\<rparr>,
         counter = Some (PdhCounterSet ''Processor'' ''% Interrupt Time'' ''_Total'')\<rparr>)"
    by (simp add: Configure_def cpuFactory_def cpuCheckName_def map_index_def ParseFloat_decimal_def
          rounded)
  show ?thesis
    using configured
      first_Run_seeds_baseline
        [OF configured,
         of "\<lparr>GetSender = None,
              times = ([\<lparr>CPU = ''cpu-total'', User = Fin 100, System = Fin 50, Idle = Fin 850\<rparr>], None),
              GetSingleValue = Inr 3\<rparr>"
            "\<lparr>CPU = ''cpu-total'', User = Fin 100, System = Fin 50, Idle = Fin 850\<rparr>" "[]"]
    by (simp add: Total_def f64_of_int_def rounded)
qed

subsection \<open>Run: a cycle whose cycle count equals the baseline's\<close>

text \<open>
  Claim C3 says that a cycle whose cycle count equals the stored one divides by nothing
  and emits no category gauge. The source has no test of the difference: it computes
  \<open>100 / (nbCycle - c.lastNbCycle)\<close> whenever a baseline is stored. For two identical
  samples it emits the six category gauges, each with the value NaN.
\<close>

theorem Run_identical_samples_counterexample:
  "category_gauges (fst (snd
     (Run \<lparr>GetSender = None,
           times = ([\<lparr>CPU = ''cpu-total'', User = Fin 100, System = Fin 50, Idle = Fin 850\<rparr>], None),
           GetSingleValue = Inr 3\<rparr>
          \<lparr>CheckBase = ''cpu'', nbCPU = Fin 4, lastNbCycle = Fin 250,
           lastTimes = \<lparr>CPU = ''cpu-total'', User = Fin 100, System = Fin 50, Idle = Fin 850\<rparr>,
           counter = Some (PdhCounterSet ''Processor'' ''% Interrupt Time'' ''_Total'')\<rparr>)))
   = [Gauge ''system.cpu.user'' NaN [] [],
      Gauge ''system.cpu.system'' NaN [] [],
      Gauge ''system.cpu.iowait'' NaN [] [],
      Gauge ''system.cpu.idle'' NaN [] [],
      Gauge ''system.cpu.stolen'' NaN [] [],
      Gauge ''system.cpu.guest'' NaN [] []]"
proof -
  have rounded: "round64 150 = Fin 150" "round64 1000 = Fin 1000" "round64 250 = Fin 250"
    by code_simp+
  show ?thesis
    by (simp add: Run_def Let_def Total_def f64_ne_def drop_zero_sign_def minus_f64_def
          category_gauges_def is_category_gauge_def category_names_def rounded round64_0)
qed

text \<open>
  Claim C3, amended. In a cycle where a baseline is stored and the sample's cycle count
  is the finite number stored with the baseline, \<open>Run\<close> does not fail: it returns no
  error. The division it makes is the floating-point division of 100 by zero, which
  gives an infinity. It emits the six category gauges, and none of their values is
  finite: each is an infinity or a NaN, and all six are NaN when the sample is
  identical to the stored one. It advances the stored sample and cycle count to the
  current ones.
\<close>

theorem Run_zero_delta:
  assumes "GetSender env = None" and "times env = (t # rest, None)"
    and "f64_ne (lastNbCycle c) (Fin 0)"
    and "lastNbCycle c = Fin k" and "Total t / nbCPU c = Fin k"
  shows "fst (Run env c) = None
       \<and> Fin 100 / (Total t / nbCPU c - lastNbCycle c) = PInf
       \<and> map gauge_name (category_gauges (fst (snd (Run env c)))) = map Some category_names
       \<and> list_all (\<lambda>v. \<not> is_finite v) (category_rates (fst (snd (Run env c))))
       \<and> (lastTimes c = t \<longrightarrow>
            category_rates (fst (snd (Run env c))) = [NaN, NaN, NaN, NaN, NaN, NaN])
       \<and> snd (snd (Run env c)) = c\<lparr>lastNbCycle := Total t / nbCPU c, lastTimes := t\<rparr>"
proof -
  have pct: "Fin 100 / (Total t / nbCPU c - lastNbCycle c) = PInf"
    by (simp add: assms(4,5) f64_minus_self)
  have gauges: "category_gauges (fst (snd (Run env c))) =
      [Gauge ''system.cpu.user'' ((User t - User (lastTimes c)) / nbCPU c * PInf) [] [],
       Gauge ''system.cpu.system'' ((System t - System (lastTimes c)) / nbCPU c * PInf) [] [],
       Gauge ''system.cpu.iowait'' (Fin 0 * PInf) [] [],
       Gauge ''system.cpu.idle'' ((Idle t - Idle (lastTimes c)) / nbCPU c * PInf) [] [],
       Gauge ''system.cpu.stolen'' (Fin 0 * PInf) [] [],
       Gauge ''system.cpu.guest'' (Fin 0 * PInf) [] []]"
    unfolding Run_category_gauges [OF assms(1-3)] pct ..
  have nan: "\<not> is_finite NaN"
    by (simp add: is_finite_def)
  have "list_all (\<lambda>v. \<not> is_finite v) (category_rates (fst (snd (Run env c))))"
    unfolding category_rates_def gauges
    by (simp add: times_PInf_not_finite nan)
  moreover have "category_rates (fst (snd (Run env c))) = [NaN, NaN, NaN, NaN, NaN, NaN]"
    if "lastTimes c = t"
    unfolding category_rates_def gauges that
    by (simp add: self_difference_times_PInf)
  moreover have "map gauge_name (category_gauges (fst (snd (Run env c)))) = map Some category_names"
    unfolding gauges by (simp add: category_names_def)
  moreover have "fst (Run env c) = None"
    and "snd (snd (Run env c)) = c\<lparr>lastNbCycle := Total t / nbCPU c, lastTimes := t\<rparr>"
    unfolding Run_sampled [OF assms(1,2)] by simp_all
  ultimately show ?thesis using pct by simp
qed

theorem Run_zero_delta_witness:
  "fst (Run \<lparr>GetSender = None,
             times = ([\<lparr>CPU = ''cpu-total'', User = Fin 110, System = Fin 70, Idle = Fin 820\<rparr>], None),
             GetSingleValue = Inr 3\<rparr>
            \<lparr>CheckBase = ''cpu'', nbCPU = Fin 4, lastNbCycle = Fin 250,
             lastTimes = \<lparr>CPU = ''cpu-total'', User = Fin 100, System = Fin 50, Idle = Fin 850\<rparr>,
             counter = Some (PdhCounterSet ''Processor'' ''% Interrupt Time'' ''_Total'')\<rparr>) = None
   \<and> map gauge_name (category_gauges (fst (snd
        (Run \<lparr>GetSender = None,
              times = ([\<lparr>CPU = ''cpu-total'', User = Fin 110, System = Fin 70, Idle = Fin 820\<rparr>], None),
              GetSingleValue = Inr 3\<rparr>
             \<lparr>CheckBase = ''cpu'', nbCPU = Fin 4, lastNbCycle = Fin 250,
              lastTimes = \<lparr>CPU = ''cpu-total'', User = Fin 100, System = Fin 50, Idle = Fin 850\<rparr>,
              counter = Some (PdhCounterSet ''Processor'' ''% Interrupt Time'' ''_Total'')\<rparr>))))
     = [Some ''system.cpu.user'', Some ''system.cpu.system'', Some ''system.cpu.iowait'',
        Some ''system.cpu.idle'', Some ''system.cpu.stolen'', Some ''system.cpu.guest'']
   \<and> list_all (\<lambda>v. \<not> is_finite v) (category_rates (fst (snd
        (Run \<lparr>GetSender = None,
              times = ([\<lparr>CPU = ''cpu-total'', User = Fin 110, System = Fin 70, Idle = Fin 820\<rparr>], None),
              GetSingleValue = Inr 3\<rparr>
             \<lparr>CheckBase = ''cpu'', nbCPU = Fin 4, lastNbCycle = Fin 250,
              lastTimes = \<lparr>CPU = ''cpu-total'', User = Fin 100, System = Fin 50, Idle = Fin 850\<rparr>,
              counter = Some (PdhCounterSet ''Processor'' ''% Interrupt Time'' ''_Total'')\<rparr>))))
   \<and> snd (snd
        (Run \<lparr>GetSender = None,
              times = ([\<lparr>CPU = ''cpu-total'', User = Fin 110, System = Fin 70, Idle = Fin 820\<rparr>], None),
              GetSingleValue = Inr 3\<rparr>
             \<lparr>CheckBase = ''cpu'', nbCPU = Fin 4, lastNbCycle = Fin 250,
              lastTimes = \<lparr>CPU = ''cpu-total'', User = Fin 100, System = Fin 50, Idle = Fin 850\<rparr>,
              counter = Some (PdhCounterSet ''Processor'' ''% Interrupt Time'' ''_Total'')\<rparr>))
     = \<lparr>CheckBase = ''cpu'', nbCPU = Fin 4, lastNbCycle = Fin 250,
        lastTimes = \<lparr>CPU = ''cpu-total'', User = Fin 110, System = Fin 70, Idle = Fin 820\<rparr>,
        counter = Some (PdhCounterSet ''Processor'' ''% Interrupt Time'' ''_Total'')\<rparr>
   \<and> category_rates (fst (snd
        (Run \<lparr>GetSender = None,
              times = ([\<lparr>CPU = ''cpu-total'', User = Fin 100, System = Fin 50, Idle = Fin 850\<rparr>], None),
              GetSingleValue = Inr 3\<rparr>
             \<lparr>CheckBase = ''cpu'', nbCPU = Fin 4, lastNbCycle = Fin 250,
              lastTimes = \<lparr>CPU = ''cpu-total'', User = Fin 100, System = Fin 50, Idle = Fin 850\<rparr>,
              counter = Some (PdhCounterSet ''Processor'' ''% Interrupt Time'' ''_Total'')\<rparr>)))
     = [NaN, NaN, NaN, NaN, NaN, NaN]"
proof -
  have rounded: "round64 180 = Fin 180" "round64 150 = Fin 150" "round64 1000 = Fin 1000"
    "round64 250 = Fin 250"
    by code_simp+
  show ?thesis
    using
      Run_zero_delta
        [of "\<lparr>GetSender = None,
              times = ([\<lparr>CPU = ''cpu-total'', User = Fin 110, System = Fin 70, Idle = Fin 820\<rparr>], None),
              GetSingleValue = Inr 3\<rparr>"
            "\<lparr>CPU = ''cpu-total'', User = Fin 110, System = Fin 70, Idle = Fin 820\<rparr>" "[]"
            "\<lparr>CheckBase = ''cpu'', nbCPU = Fin 4, lastNbCycle = Fin 250,
              lastTimes = \<lparr>CPU = ''cpu-total'', User = Fin 100, System = Fin 50, Idle = Fin 850\<rparr>,
              counter = Some (PdhCounterSet ''Processor'' ''% Interrupt Time'' ''_Total'')\<rparr>"
            250]
      Run_zero_delta
        [of "\<lparr>GetSender = None,
              times = ([\<lparr>CPU = ''cpu-total'', User = Fin 100, System = Fin 50, Idle = Fin 850\<rparr>], None),
              GetSingleValue = Inr 3\<rparr>"
            "\<lparr>CPU = ''cpu-total'', User = Fin 100, System = Fin 50, Idle = Fin 850\<rparr>" "[]"
            "\<lparr>CheckBase = ''cpu'', nbCPU = Fin 4, lastNbCycle = Fin 250,
              lastTimes = \<lparr>CPU = ''cpu-total'', User = Fin 100, System = Fin 50, Idle = Fin 850\<rparr>,
              counter = Some (PdhCounterSet ''Processor'' ''% Interrupt Time'' ''_Total'')\<rparr>"
            250]
    by (simp add: Total_def f64_ne_def drop_zero_sign_def category_names_def rounded)
qed

subsection \<open>Times: a kernel count below the idle count\<close>

text \<open>
  Claim C9 says that a sample whose kernel count is below its idle count gives no
  wrapped-around \<open>System\<close> value that reaches an emitted rate without being flagged. The
  source subtracts the two \<open>uint64\<close> counts with no comparison before or after. With
  idle 990 and kernel 980 the wrapped difference is \<open>2^64 - 10\<close>, whose conversion to
  \<open>float64\<close> is \<open>2^64\<close>: \<open>Times\<close> returns no error and the \<open>System\<close> value \<open>2^64\<close>. The
  \<open>Run\<close> that takes this sample returns no error either and emits
  \<open>system.cpu.system\<close> computed from it like from any other value: here 100.
\<close>

theorem Times_kernel_below_idle_counterexample:
  "Times \<lparr>r_result = 1,
          lpIdleTime = \<lparr>DwLowDateTime = 990, DwHighDateTime = 0\<rparr>,
          lpKernelTime = \<lparr>DwLowDateTime = 980, DwHighDateTime = 0\<rparr>,
          lpUserTime = \<lparr>DwLowDateTime = 140, DwHighDateTime = 0\<rparr>,
          GetLastError = None\<rparr>
     = ([\<lparr>CPU = ''cpu-total'', User = Fin 140, System = Fin 18446744073709551616, Idle = Fin 990\<rparr>],
        None)
   \<and> fst (Run \<lparr>GetSender = None,
               times = Times \<lparr>r_result = 1,
                         lpIdleTime = \<lparr>DwLowDateTime = 990, DwHighDateTime = 0\<rparr>,
                         lpKernelTime = \<lparr>DwLowDateTime = 980, DwHighDateTime = 0\<rparr>,
                         lpUserTime = \<lparr>DwLowDateTime = 140, DwHighDateTime = 0\<rparr>,
                         GetLastError = None\<rparr>,
               GetSingleValue = Inr 3\<rparr>
              \<lparr>CheckBase = ''cpu'', nbCPU = Fin 4, lastNbCycle = Fin 250,
               lastTimes = \<lparr>CPU = ''cpu-total'', User = Fin 100, System = Fin 50, Idle = Fin 850\<rparr>,
               counter = Some (PdhCounterSet ''Processor'' ''% Interrupt Time'' ''_Total'')\<rparr>) = None
   \<and> category_gauges (fst (snd
        (Run \<lparr>GetSender = None,
              times = Times \<lparr>r_result = 1,
                        lpIdleTime = \<lparr>DwLowDateTime = 990, DwHighDateTime = 0\<rparr>,
                        lpKernelTime = \<lparr>DwLowDateTime = 980, DwHighDateTime = 0\<rparr>,
                        lpUserTime = \<lparr>DwLowDateTime = 140, DwHighDateTime = 0\<rparr>,
                        GetLastError = None\<rparr>,
              GetSingleValue = Inr 3\<rparr>
             \<lparr>CheckBase = ''cpu'', nbCPU = Fin 4, lastNbCycle = Fin 250,
              lastTimes = \<lparr>CPU = ''cpu-total'', User = Fin 100, System = Fin 50, Idle = Fin 850\<rparr>,
              counter = Some (PdhCounterSet ''Processor'' ''% Interrupt Time'' ''_Total'')\<rparr>))) ! 1
     = Gauge ''system.cpu.system'' (Fin 100) [] []"
proof -
  have rounded: "round64 140 = Fin 140" "round64 990 = Fin 990"
    "round64 18446744073709551606 = Fin 18446744073709551616"
    "round64 18446744073709551756 = Fin 18446744073709551616"
    "round64 18446744073709552606 = Fin 18446744073709551616"
    "round64 4611686018427387904 = Fin 4611686018427387904"
    "round64 4611686018427387654 = Fin 4611686018427387904"
    "round64 18446744073709551566 = Fin 18446744073709551616"
    "round64 (25 / 1152921504606846976) = Fin (25 / 1152921504606846976)"
    "round64 100 = Fin 100" "round64 40 = Fin 40" "round64 10 = Fin 10"
    by code_simp+
  have sample:
    "Times \<lparr>r_result = 1,
            lpIdleTime = \<lparr>DwLowDateTime = 990, DwHighDateTime = 0\<rparr>,
            lpKernelTime = \<lparr>DwLowDateTime = 980, DwHighDateTime = 0\<rparr>,
            lpUserTime = \<lparr>DwLowDateTime = 140, DwHighDateTime = 0\<rparr>,
            GetLastError = None\<rparr>
       = ([\<lparr>CPU = ''cpu-total'', User = Fin 140, System = Fin 18446744073709551616, Idle = Fin 990\<rparr>],
          None)"
    using Times_success_ticks
      [of "\<lparr>r_result = 1,
            lpIdleTime = \<lparr>DwLowDateTime = 990, DwHighDateTime = 0\<rparr>,
            lpKernelTime = \<lparr>DwLowDateTime = 980, DwHighDateTime = 0\<rparr>,
            lpUserTime = \<lparr>DwLowDateTime = 140, DwHighDateTime = 0\<rparr>,
            GetLastError = None\<rparr>" 980 990 140]
    by (simp add: rounded)
  show ?thesis
    unfolding sample
    by (simp add: Run_def Let_def Total_def f64_ne_def drop_zero_sign_def minus_f64_def
          category_gauges_def is_category_gauge_def category_names_def rounded)
qed

text \<open>
  Claim C9, amended. For a sample whose kernel count is below its idle count, \<open>Times\<close>
  reports no error, and the \<open>System\<close> value it derives is never negative: it is the
  \<open>float64\<close> nearest to the wrapped-around difference \<open>2^64 + kernel - idle\<close>, a
  positive number. Nothing flags it: a \<open>Run\<close> with a stored baseline that takes this
  sample returns no error and emits \<open>system.cpu.system\<close> computed from that value by
  the same expression as for any other sample.
\<close>

theorem Times_kernel_below_idle:
  assumes "r_result os \<noteq> 0"
    and "kernel_ticks = 2 ^ 32 * uint (DwHighDateTime (lpKernelTime os)) + uint (DwLowDateTime (lpKernelTime os))"
    and "idle_ticks = 2 ^ 32 * uint (DwHighDateTime (lpIdleTime os)) + uint (DwLowDateTime (lpIdleTime os))"
    and "user_ticks = 2 ^ 32 * uint (DwHighDateTime (lpUserTime os)) + uint (DwLowDateTime (lpUserTime os))"
    and "kernel_ticks < idle_ticks"
    and "t = \<lparr>CPU = ''cpu-total'', User = round64 (of_int user_ticks),
              System = round64 (of_int (2 ^ 64 + kernel_ticks - idle_ticks)),
              Idle = round64 (of_int idle_ticks)\<rparr>"
    and "GetSender env = None" and "times env = Times os"
    and "f64_ne (lastNbCycle c) (Fin 0)"
  shows "Times os = ([t], None)
       \<and> 0 < 2 ^ 64 + kernel_ticks - idle_ticks
       \<and> \<not> is_negative (System t)
       \<and> fst (Run env c) = None
       \<and> category_gauges (fst (snd (Run env c))) ! 1 =
           Gauge ''system.cpu.system''
             ((System t - System (lastTimes c)) / nbCPU c
                * (Fin 100 / (Total t / nbCPU c - lastNbCycle c))) [] []"
proof -
  have sample: "Times os = ([t], None)"
    using Times_success_ticks [OF assms(1-4)] assms(5,6) by simp
  have "idle_ticks < 2 ^ 64"
  proof -
    have "uint (filetime_uint64 (lpIdleTime os)) < 2 ^ 64"
      using uint_lt2p [of "filetime_uint64 (lpIdleTime os)"] by simp
    then show ?thesis by (simp only: uint_filetime_uint64 assms(3))
  qed
  moreover have "0 \<le> kernel_ticks"
    unfolding assms(2) by simp
  ultimately have pos: "0 < 2 ^ 64 + kernel_ticks - idle_ticks"
    by linarith
  then have "(0 :: rat) \<le> of_int (2 ^ 64 + kernel_ticks - idle_ticks)"
    by (simp only: of_int_0_le_iff)
  then have "\<not> is_negative (round64 (of_int (2 ^ 64 + kernel_ticks - idle_ticks)))"
    by (rule round64_not_negative)
  then have sign: "\<not> is_negative (System t)"
    by (simp add: assms(6))
  have sampled: "times env = (t # [], None)"
    using assms(8) sample by simp
  have "category_gauges (fst (snd (Run env c))) ! 1 =
           Gauge ''system.cpu.system''
             ((System t - System (lastTimes c)) / nbCPU c
                * (Fin 100 / (Total t / nbCPU c - lastNbCycle c))) [] []"
    unfolding Run_category_gauges [OF assms(7) sampled assms(9)] by simp
  moreover have "fst (Run env c) = None"
    unfolding Run_sampled [OF assms(7) sampled] by simp
  ultimately show ?thesis
    using sample pos sign by simp
qed

theorem Times_kernel_below_idle_witness:
  "Times \<lparr>r_result = 1,
          lpIdleTime = \<lparr>DwLowDateTime = 4096, DwHighDateTime = 3\<rparr>,
          lpKernelTime = \<lparr>DwLowDateTime = 0, DwHighDateTime = 3\<rparr>,
          lpUserTime = \<lparr>DwLowDateTime = 140, DwHighDateTime = 0\<rparr>,
          GetLastError = None\<rparr>
     = ([\<lparr>CPU = ''cpu-total'', User = Fin 140, System = Fin 18446744073709547520,
          Idle = Fin 12884905984\<rparr>], None)
   \<and> \<not> is_negative (System \<lparr>CPU = ''cpu-total'', User = Fin 140,
                             System = Fin 18446744073709547520, Idle = Fin 12884905984\<rparr>)
   \<and> fst (Run \<lparr>GetSender = None,
               times = ([\<lparr>CPU = ''cpu-total'', User = Fin 140, System = Fin 18446744073709547520,
                          Idle = Fin 12884905984\<rparr>], None),
               GetSingleValue = Inl ''no data''\<rparr>
              \<lparr>CheckBase = ''cpu'', nbCPU = Fin 4, lastNbCycle = Fin 250,
               lastTimes = \<lparr>CPU = ''cpu-total'', User = Fin 100, System = Fin 50, Idle = Fin 850\<rparr>,
               counter = Some (PdhCounterSet ''Processor'' ''% Interrupt Time'' ''_Total'')\<rparr>) = None
   \<and> category_gauges (fst (snd
        (Run \<lparr>GetSender = None,
              times = ([\<lparr>CPU = ''cpu-total'', User = Fin 140, System = Fin 18446744073709547520,
                         Idle = Fin 12884905984\<rparr>], None),
              GetSingleValue = Inl ''no data''\<rparr>
             \<lparr>CheckBase = ''cpu'', nbCPU = Fin 4, lastNbCycle = Fin 250,
              lastTimes = \<lparr>CPU = ''cpu-total'', User = Fin 100, System = Fin 50, Idle = Fin 850\<rparr>,
              counter = Some (PdhCounterSet ''Processor'' ''% Interrupt Time'' ''_Total'')\<rparr>))) ! 1
     = Gauge ''system.cpu.system''
         ((Fin 18446744073709547520 - Fin 50) / Fin 4
            * (Fin 100 / (Total \<lparr>CPU = ''cpu-total'', User = Fin 140,
                                   System = Fin 18446744073709547520,
                                   Idle = Fin 12884905984\<rparr> / Fin 4 - Fin 250))) [] []"
proof -
  have rounded: "round64 140 = Fin 140" "round64 12884905984 = Fin 12884905984"
    "round64 18446744073709547520 = Fin 18446744073709547520"
    by code_simp+
  have sample:
    "Times \<lparr>r_result = 1,
            lpIdleTime = \<lparr>DwLowDateTime = 4096, DwHighDateTime = 3\<rparr>,
            lpKernelTime = \<lparr>DwLowDateTime = 0, DwHighDateTime = 3\<rparr>,
            lpUserTime = \<lparr>DwLowDateTime = 140, DwHighDateTime = 0\<rparr>,
            GetLastError = None\<rparr>
       = ([\<lparr>CPU = ''cpu-total'', User = Fin 140, System = Fin 18446744073709547520,
            Idle = Fin 12884905984\<rparr>], None)"
    using Times_success_ticks
      [of "\<lparr>r_result = 1,
            lpIdleTime = \<lparr>DwLowDateTime = 4096, DwHighDateTime = 3\<rparr>,
            lpKernelTime = \<lparr>DwLowDateTime = 0, DwHighDateTime = 3\<rparr>,
            lpUserTime = \<lparr>DwLowDateTime = 140, DwHighDateTime = 0\<rparr>,
            GetLastError = None\<rparr>" 12884901888 12884905984 140]
    by (simp add: rounded)
  show ?thesis
    using Times_kernel_below_idle
      [of "\<lparr>r_result = 1,
            lpIdleTime = \<lparr>DwLowDateTime = 4096, DwHighDateTime = 3\<rparr>,
            lpKernelTime = \<lparr>DwLowDateTime = 0, DwHighDateTime = 3\<rparr>,
            lpUserTime = \<lparr>DwLowDateTime = 140, DwHighDateTime = 0\<rparr>,
            GetLastError = None\<rparr>"
          12884901888 12884905984 140
          "\<lparr>CPU = ''cpu-total'', User = Fin 140, System = Fin 18446744073709547520,
            Idle = Fin 12884905984\<rparr>"
          "\<lparr>GetSender = None,
            times = ([\<lparr>CPU = ''cpu-total'', User = Fin 140, System = Fin 18446744073709547520,
                       Idle = Fin 12884905984\<rparr>], None),
            GetSingleValue = Inl ''no data''\<rparr>"
          "\<lparr>CheckBase = ''cpu'', nbCPU = Fin 4, lastNbCycle = Fin 250,
            lastTimes = \<lparr>CPU = ''cpu-total'', User = Fin 100, System = Fin 50, Idle = Fin 850\<rparr>,
            counter = Some (PdhCounterSet ''Processor'' ''% Interrupt Time'' ''_Total'')\<rparr>"]
    by (simp add: sample rounded f64_ne_def drop_zero_sign_def)
qed

subsection \<open>Configure: the counter handle\<close>

text \<open>
  Claim C6 says that \<open>Configure\<close> still succeeds when the handle of the interrupt-time
  counter cannot be established. The source returns an error on that path. On a host
  reporting 4 logical processors whose counter cannot be opened, \<open>Configure\<close> returns
  the error below.
\<close>

theorem Configure_counter_failure_counterexample:
  "Configure \<lparr>GetCpuInfo = Inr (map_of [(''cpu_logical_processors'', ''4'')]),
              ParseFloat = ParseFloat_decimal,
              GetCounterSet = (None, Some ''PdhOpenQuery failed'')\<rparr>
             cpuFactory
   = (Some ''system.CPUCheck could not establish interrupt time counter PdhOpenQuery failed'',
      \<lparr>CheckBase = ''cpu'', nbCPU = Fin 4, lastNbCycle = Fin 0,
       lastTimes = \<lparr>CPU = [], User = Fin 0, System = Fin 0, Idle = Fin 0\<rparr>,
       counter = None\<rparr>)"
proof -
  have rounded: "round64 4 = Fin 4"
    by code_simp
  show ?thesis
    by (simp add: Configure_def cpuFactory_def cpuCheckName_def map_index_def ParseFloat_decimal_def
          rounded)
qed

text \<open>
  Claim C6, amended. If establishing the handle of the interrupt-time counter fails
  during \<open>Configure\<close>, the failure is fatal to that call: \<open>Configure\<close> returns an error
  made of its own message and the counter's error. By then it has stored the number of
  CPUs it parsed and the handle the call returned.
\<close>

theorem Configure_counter_failure:
  assumes "GetCpuInfo env = Inr info" and "snd (GetCounterSet env) = Some err"
  shows "Configure env c =
     (Some (''system.CPUCheck could not establish interrupt time counter '' @ err),
      c\<lparr>nbCPU := fst (ParseFloat env (map_index info ''cpu_logical_processors'')),
        counter := fst (GetCounterSet env)\<rparr>)"
  using assms by (simp add: Configure_def Let_def)

theorem Configure_counter_failure_witness:
  "Configure \<lparr>GetCpuInfo = Inr (map_of [(''cpu_logical_processors'', ''8'')]),
              ParseFloat = ParseFloat_decimal,
              GetCounterSet = (None, Some ''access denied'')\<rparr>
             cpuFactory
   = (Some ''system.CPUCheck could not establish interrupt time counter access denied'',
      cpuFactory\<lparr>nbCPU := Fin 8, counter := None\<rparr>)"
proof -
  have rounded: "round64 8 = Fin 8"
    by code_simp
  show ?thesis
  using Configure_counter_failure
    [of "\<lparr>GetCpuInfo = Inr (map_of [(''cpu_logical_processors'', ''8'')]),
          ParseFloat = ParseFloat_decimal,
          GetCounterSet = (None, Some ''access denied'')\<rparr>"
        "map_of [(''cpu_logical_processors'', ''8'')]" "''access denied''" cpuFactory]
    by (simp add: map_index_def ParseFloat_decimal_def rounded)
qed

subsection \<open>Configure: the number of logical CPUs\<close>

text \<open>
  Claim C10 says that \<open>Configure\<close> returns an error whenever the number of logical CPUs
  cannot be resolved, also when the reported value is missing or cannot be parsed. The
  source tests the error of \<open>cpu.GetCpuInfo()\<close> only; the error of
  \<open>strconv.ParseFloat\<close> is assigned to \<open>_\<close>. On a host whose CPU information has no
  entry \<open>cpu_logical_processors\<close>, \<open>Configure\<close> succeeds and the check holds 0 CPUs.
\<close>

theorem Configure_missing_cpu_count_counterexample:
  "Configure \<lparr>GetCpuInfo = Inr (map_of []),
              ParseFloat = ParseFloat_decimal,
              GetCounterSet = (Some (PdhCounterSet ''Processor'' ''% Interrupt Time'' ''_Total''), None)\<rparr>
             cpuFactory
   = (None,
      \<lparr>CheckBase = ''cpu'', nbCPU = Fin 0, lastNbCycle = Fin 0,
       lastTimes = \<lparr>CPU = [], User = Fin 0, System = Fin 0, Idle = Fin 0\<rparr>,
       counter = Some (PdhCounterSet ''Processor'' ''% Interrupt Time'' ''_Total'')\<rparr>)
   \<and> snd (ParseFloat_decimal (map_index (map_of []) ''cpu_logical_processors''))
       = Some ''invalid syntax''"
  by (simp add: Configure_def cpuFactory_def cpuCheckName_def map_index_def ParseFloat_decimal_def)

text \<open>
  Claim C10, amended. \<open>Configure\<close> returns an error when the query of the host's CPU
  information itself fails, and on that call it leaves the check as it was: no number
  of CPUs and no counter handle is stored. When the query succeeds, a missing or
  unparseable value is no error of \<open>Configure\<close>: whatever error the parse reports, the
  number the parse returned is stored as the number of CPUs, and \<open>Configure\<close> succeeds
  exactly when the counter handle is established.
\<close>

theorem Configure_cpu_count:
  "(GetCpuInfo env = Inl err \<longrightarrow>
      Configure env c = (Some ''system.CPUCheck: could not query CPU info'', c))
   \<and> (GetCpuInfo env = Inr info \<longrightarrow>
        nbCPU (snd (Configure env c)) = fst (ParseFloat env (map_index info ''cpu_logical_processors''))
        \<and> (fst (Configure env c) = None) = (snd (GetCounterSet env) = None))"
  by (auto simp: Configure_def Let_def split: option.splits)

theorem Configure_cpu_count_witness:
  "Configure \<lparr>GetCpuInfo = Inl ''wmi query failed'',
              ParseFloat = ParseFloat_decimal,
              GetCounterSet = (Some (PdhCounterSet ''Processor'' ''% Interrupt Time'' ''_Total''), None)\<rparr>
             cpuFactory
   = (Some ''system.CPUCheck: could not query CPU info'', cpuFactory)
   \<and> nbCPU (snd (Configure
        \<lparr>GetCpuInfo = Inr (map_of [(''cpu_logical_processors'', ''many'')]),
         ParseFloat = ParseFloat_decimal,
         GetCounterSet = (Some (PdhCounterSet ''Processor'' ''% Interrupt Time'' ''_Total''), None)\<rparr>
        cpuFactory)) = Fin 0
   \<and> fst (Configure
        \<lparr>GetCpuInfo = Inr (map_of [(''cpu_logical_processors'', ''many'')]),
         ParseFloat = ParseFloat_decimal,
         GetCounterSet = (Some (PdhCounterSet ''Processor'' ''% Interrupt Time'' ''_Total''), None)\<rparr>
        cpuFactory) = None"
  using Configure_cpu_count
    [of "\<lparr>GetCpuInfo = Inl ''wmi query failed'',
          ParseFloat = ParseFloat_decimal,
          GetCounterSet = (Some (PdhCounterSet ''Processor'' ''% Interrupt Time'' ''_Total''), None)\<rparr>"
        "''wmi query failed''" cpuFactory "map_of []"]
    Configure_cpu_count
    [of "\<lparr>GetCpuInfo = Inr (map_of [(''cpu_logical_processors'', ''many'')]),
          ParseFloat = ParseFloat_decimal,
          GetCounterSet = (Some (PdhCounterSet ''Processor'' ''% Interrupt Time'' ''_Total''), None)\<rparr>"
        "''none''" cpuFactory "map_of [(''cpu_logical_processors'', ''many'')]"]
  by (simp add: map_index_def ParseFloat_decimal_def)

subsection \<open>From one cycle to the next\<close>

text \<open>
  A \<open>Run\<close> that takes a sample leaves the check with that sample and with the cycle
  count computed from it: the relation between \<open>lastTimes\<close> and \<open>lastNbCycle\<close> that
  the claims about rates start from.
\<close>

lemma Run_stores_cycle_count:
  assumes "GetSender env = None" and "times env = (t # rest, None)"
  shows "lastTimes (snd (snd (Run env c))) = t
       \<and> lastNbCycle (snd (snd (Run env c)))
           = Total (lastTimes (snd (snd (Run env c)))) / nbCPU (snd (snd (Run env c)))"
  unfolding Run_sampled [OF assms] by simp

text \<open>
  The scenario of the specification from the start: the check is built, configured on a
  host with 4 logical processors, and run twice. The first cycle emits the interrupt
  gauge only; the second emits 20, 10, 0, 70, 0, 0.
\<close>

lemma two_cycles:
  "Run \<lparr>GetSender = None,
        times = ([\<lparr>CPU = ''cpu-total'', User = Fin 140, System = Fin 70, Idle = Fin 990\<rparr>], None),
        GetSingleValue = Inr 2\<rparr>
     (snd (snd
       (Run \<lparr>GetSender = None,
             times = ([\<lparr>CPU = ''cpu-total'', User = Fin 100, System = Fin 50, Idle = Fin 850\<rparr>], None),
             GetSingleValue = Inr 3\<rparr>
          (snd (Configure
                 \<lparr>GetCpuInfo = Inr (map_of [(''cpu_logical_processors'', ''4'')]),
                  ParseFloat = ParseFloat_decimal,
                  GetCounterSet = (Some (PdhCounterSet ''Processor'' ''% Interrupt Time'' ''_Total''), None)\<rparr>
                 cpuFactory)))))
   = (None,
      [Gauge ''system.cpu.user'' (Fin 20) [] [],
       Gauge ''system.cpu.system'' (Fin 10) [] [],
       Gauge ''system.cpu.iowait'' (Fin 0) [] [],
       Gauge ''system.cpu.idle'' (Fin 70) [] [],
       Gauge ''system.cpu.stolen'' (Fin 0) [] [],
       Gauge ''system.cpu.guest'' (Fin 0) [] [],
       Gauge ''system.cpu.interrupt'' (Fin 2) [] [],
       Commit],
      \<lparr>CheckBase = ''cpu'', nbCPU = Fin 4, lastNbCycle = Fin 300,
       lastTimes = \<lparr>CPU = ''cpu-total'', User = Fin 140, System = Fin 70, Idle = Fin 990\<rparr>,
       counter = Some (PdhCounterSet ''Processor'' ''% Interrupt Time'' ''_Total'')\<rparr>)"
proof -
  have rounded: "round64 4 = Fin 4" "round64 3 = Fin 3" "round64 2 = Fin 2"
    "round64 150 = Fin 150" "round64 1000 = Fin 1000" "round64 250 = Fin 250"
    "round64 210 = Fin 210" "round64 1200 = Fin 1200" "round64 300 = Fin 300"
    "round64 50 = Fin 50" "round64 40 = Fin 40" "round64 10 = Fin 10" "round64 20 = Fin 20"
    "round64 5 = Fin 5" "round64 140 = Fin 140" "round64 35 = Fin 35" "round64 70 = Fin 70"
    by code_simp+
  show ?thesis
    by (simp add: Configure_def cpuFactory_def cpuCheckName_def map_index_def ParseFloat_decimal_def
          Run_def Let_def Total_def f64_ne_def drop_zero_sign_def minus_f64_def f64_of_int_def
          rounded)
qed

end
